theory Spec2Isabelle
  imports Complex_Main "HOL-Library.AList" "HOL-Library.Sublist"
begin

section \<open>Python values and exceptions\<close>

text \<open>
  The values \<^verbatim>\<open>json.load\<close> produces. A dict is an association list in insertion order
  (the order \<^verbatim>\<open>.items()\<close> iterates in); lookups read the first pair with the key. The
  carrier \<open>'n\<close> of numbers is left open: no code path of the service inspects a number.
\<close>

datatype 'n json =
    JNull
  | JBool bool
  | JNum 'n
  | JStr string
  | JArr "'n json list"
  | JObj "(string \<times> 'n json) list"

text \<open>
  The builtin and library exceptions the modelled code can meet. Each is a subclass of
  \<^verbatim>\<open>Exception\<close>, so an \<^verbatim>\<open>except Exception\<close> clause catches every value of this type.
  \<open>KeyError\<close> carries the missing key.
\<close>

datatype py_exception =
    AttributeError
  | IndexError
  | KeyError string
  | TypeError
  | ValueError
  | OSError
  | JSONDecodeError
  | UnidentifiedImageError

text \<open>Sequencing of steps that may raise: the first exception ends the block.\<close>

fun bind :: "'e + 'a \<Rightarrow> ('a \<Rightarrow> 'e + 'b) \<Rightarrow> 'e + 'b" where
  "bind (Inl e) f = Inl e"
| "bind (Inr x) f = f x"

text \<open>\<^verbatim>\<open>v.items()\<close>: only a dict has the method.\<close>

fun items :: "'n json \<Rightarrow> py_exception + (string \<times> 'n json) list" where
  "items (JObj kvs) = Inr kvs"
| "items _ = Inl AttributeError"

text \<open>
  \<^verbatim>\<open>name in v\<close> for a string \<open>name\<close>: key membership in a dict, element equality in a
  list, substring test in a string; the other values are not iterable.
\<close>

fun py_contains :: "'n json \<Rightarrow> string \<Rightarrow> py_exception + bool" where
  "py_contains (JObj kvs) name = Inr (map_of kvs name \<noteq> None)"
| "py_contains (JArr vs) name = Inr (JStr name \<in> set vs)"
| "py_contains (JStr s) name = Inr (sublist name s)"
| "py_contains _ name = Inl TypeError"

text \<open>
  \<^verbatim>\<open>v[key]\<close> for a string \<open>key\<close>: a dict yields the value or raises \<^verbatim>\<open>KeyError\<close>; a list
  and a string accept integer indices only; the other values are not subscriptable.
\<close>

fun py_getitem :: "'n json \<Rightarrow> string \<Rightarrow> py_exception + 'n json" where
  "py_getitem (JObj kvs) key =
     (case map_of kvs key of None \<Rightarrow> Inl (KeyError key) | Some v \<Rightarrow> Inr v)"
| "py_getitem _ key = Inl TypeError"

text \<open>
  A replacement field \<^verbatim>\<open>{v}\<close> of an f-string: a string is inserted as it is, any other
  value through Python's builtin \<^verbatim>\<open>str\<close>, which is the parameter \<open>py_str\<close>.
\<close>

fun format_field :: "('n json \<Rightarrow> string) \<Rightarrow> 'n json \<Rightarrow> string" where
  "format_field py_str (JStr s) = s"
| "format_field py_str v = py_str v"

section \<open>Treatment catalog (disease\_treatments.py)\<close>

subsection \<open>flatten\_disease\_database\<close>

text \<open>
  The three nested loops, innermost first. \<^verbatim>\<open>flattened[disease_name] = disease_info\<close> is
  \<^const>\<open>AList.update\<close>: an existing key keeps its place and takes the new value, a new key
  is appended. An exception leaves the function, so the accumulator is lost with it.
\<close>

fun flatten_diseases ::
  "(string \<times> 'n json) list \<Rightarrow> (string \<times> 'n json) list \<Rightarrow> (string \<times> 'n json) list" where
  "flatten_diseases [] flattened = flattened"
| "flatten_diseases ((disease_name, disease_info) # rest) flattened =
     flatten_diseases rest (AList.update disease_name disease_info flattened)"

fun flatten_crops ::
  "(string \<times> 'n json) list \<Rightarrow> (string \<times> 'n json) list
     \<Rightarrow> py_exception + (string \<times> 'n json) list" where
  "flatten_crops [] flattened = Inr flattened"
| "flatten_crops ((crop, diseases) # rest) flattened =
     bind (items diseases) (\<lambda>ds. flatten_crops rest (flatten_diseases ds flattened))"

fun flatten_categories ::
  "(string \<times> 'n json) list \<Rightarrow> (string \<times> 'n json) list
     \<Rightarrow> py_exception + (string \<times> 'n json) list" where
  "flatten_categories [] flattened = Inr flattened"
| "flatten_categories ((category, crops) # rest) flattened =
     bind (items crops) (\<lambda>cs.
       bind (flatten_crops cs flattened) (\<lambda>fl. flatten_categories rest fl))"

definition flatten_disease_database :: "'n json \<Rightarrow> py_exception + 'n json" where
  "flatten_disease_database comprehensive_data =
     bind (items comprehensive_data) (\<lambda>cats.
       bind (flatten_categories cats []) (\<lambda>flattened. Inr (JObj flattened)))"

subsection \<open>get\_default\_treatments\<close>

definition disease_record :: "string \<Rightarrow> string \<Rightarrow> string \<Rightarrow> 'n json" where
  "disease_record d t p =
     JObj [(''description'', JStr d), (''treatment'', JStr t), (''prevention'', JStr p)]"

definition get_default_treatments :: "'n json" where
  "get_default_treatments = JObj [
    (''Tomato Bacterial Spot'', disease_record
      ''Bacterial spot is a common disease of tomato caused by Xanthomonas vesicatoria''
      ''Apply copper-based fungicides, improve air circulation, avoid overhead watering, remove infected plant debris''
      ''Use disease-free seeds, practice crop rotation, maintain proper spacing between plants''),
    (''Tomato Early Blight'', disease_record
      ''Early blight is caused by the fungus Alternaria solani''
      ''Apply fungicides containing chlorothalonil or copper, remove infected leaves, improve air circulation''
      ''Mulch around plants, avoid overhead watering, practice crop rotation''),
    (''Tomato Late Blight'', disease_record
      ''Late blight is caused by the oomycete Phytophthora infestans''
      ''Apply fungicides containing chlorothalonil or copper, remove infected plants immediately''
      ''Avoid overhead watering, ensure good drainage, practice crop rotation''),
    (''Tomato Leaf Mold'', disease_record
      ''Leaf mold is caused by the fungus Passalora fulva''
      ''Apply fungicides, improve air circulation, reduce humidity''
      ''Use resistant varieties, maintain proper spacing, avoid overhead watering''),
    (''Tomato Septoria Leaf Spot'', disease_record
      ''Septoria leaf spot is caused by the fungus Septoria lycopersici''
      ''Apply fungicides containing chlorothalonil, remove infected leaves''
      ''Practice crop rotation, avoid overhead watering, maintain clean garden''),
    (''Tomato Spider Mites'', disease_record
      ''Spider mites are tiny arachnids that feed on plant sap''
      ''Apply insecticidal soap or neem oil, increase humidity, remove heavily infested leaves''
      ''Regular monitoring, maintain proper humidity, avoid over-fertilization''),
    (''Tomato Target Spot'', disease_record
      ''Target spot is caused by the fungus Corynespora cassiicola''
      ''Apply fungicides, improve air circulation, remove infected leaves''
      ''Practice crop rotation, maintain proper spacing, avoid overhead watering''),
    (''Tomato Yellow Leaf Curl Virus'', disease_record
      ''Yellow leaf curl virus is transmitted by whiteflies''
      ''Control whitefly populations, remove infected plants, apply systemic insecticides''
      ''Use resistant varieties, control weeds, monitor for whiteflies''),
    (''Tomato Mosaic Virus'', disease_record
      ''Mosaic virus is transmitted by aphids and mechanical means''
      ''Remove infected plants, control aphid populations, disinfect tools''
      ''Use disease-free seeds, control aphids, practice good hygiene''),
    (''Tomato Healthy'', disease_record
      ''The tomato plant appears healthy with no visible disease symptoms''
      ''Continue current care practices, monitor regularly for any changes''
      ''Maintain proper watering, fertilization, and pest management''),
    (''Potato Early Blight'', disease_record
      ''Early blight in potatoes is caused by Alternaria solani''
      ''Apply fungicides containing chlorothalonil, remove infected foliage''
      ''Practice crop rotation, maintain proper spacing, avoid overhead watering''),
    (''Potato Late Blight'', disease_record
      ''Late blight in potatoes is caused by Phytophthora infestans''
      ''Apply fungicides containing chlorothalonil or copper, remove infected plants''
      ''Avoid overhead watering, ensure good drainage, practice crop rotation''),
    (''Potato Healthy'', disease_record
      ''The potato plant appears healthy with no visible disease symptoms''
      ''Continue current care practices, monitor regularly for any changes''
      ''Maintain proper watering, fertilization, and pest management''),
    (''Corn Northern Leaf Blight'', disease_record
      ''Northern leaf blight is caused by the fungus Exserohilum turcicum''
      ''Apply fungicides containing azoxystrobin or propiconazole''
      ''Use resistant varieties, practice crop rotation, maintain proper spacing''),
    (''Corn Common Rust'', disease_record
      ''Common rust is caused by the fungus Puccinia sorghi''
      ''Apply fungicides containing azoxystrobin or propiconazole''
      ''Use resistant varieties, practice crop rotation, avoid overhead watering''),
    (''Corn Gray Leaf Spot'', disease_record
      ''Gray leaf spot is caused by the fungus Cercospora zeae-maydis''
      ''Apply fungicides containing azoxystrobin or propiconazole''
      ''Use resistant varieties, practice crop rotation, maintain proper spacing''),
    (''Corn Healthy'', disease_record
      ''The corn plant appears healthy with no visible disease symptoms''
      ''Continue current care practices, monitor regularly for any changes''
      ''Maintain proper watering, fertilization, and pest management'')]"

subsection \<open>load\_treatments\_database\<close>

text \<open>
  What the loader finds at one path: \<^verbatim>\<open>os.path.exists\<close> is false (\<open>Missing\<close>); the file
  exists and \<^verbatim>\<open>open\<close> or \<^verbatim>\<open>json.load\<close> raises (\<open>Unreadable\<close>); or it parses to a value.
\<close>

datatype 'n resource = Missing | Unreadable py_exception | Parsed "'n json"

record 'n knowledge_base =
  comprehensive_path :: "'n resource"
  knowledge_base_path :: "'n resource"

text \<open>The body of the \<^verbatim>\<open>try\<close> block: the first statement that raises leaves it.\<close>

definition load_treatments_try :: "'n knowledge_base \<Rightarrow> py_exception + 'n json" where
  "load_treatments_try kb =
     (case comprehensive_path kb of
        Unreadable e \<Rightarrow> Inl e
      | Parsed comprehensive_data \<Rightarrow> flatten_disease_database comprehensive_data
      | Missing \<Rightarrow>
          (case knowledge_base_path kb of
             Unreadable e \<Rightarrow> Inl e
           | Parsed data \<Rightarrow> Inr data
           | Missing \<Rightarrow> Inr get_default_treatments))"

text \<open>The single \<^verbatim>\<open>except Exception\<close> clause around it returns the default table.\<close>

definition load_treatments_database :: "'n knowledge_base \<Rightarrow> py_exception + 'n json" where
  "load_treatments_database kb =
     (case load_treatments_try kb of
        Inr db \<Rightarrow> Inr db
      | Inl e \<Rightarrow> Inr get_default_treatments)"

subsection \<open>get\_treatment\_suggestion\<close>

definition newline :: string where
  "newline = [CHR 0x0A]"

definition hit_message :: "string \<Rightarrow> string \<Rightarrow> string \<Rightarrow> string" where
  "hit_message d t p =
     d @ newline @ newline @ ''Treatment: '' @ t @ newline @ newline @ ''Prevention: '' @ p"

definition miss_message :: "string \<Rightarrow> string" where
  "miss_message disease_name =
     ''No specific treatment information available for '' @ disease_name @
     ''. Please consult with a local agricultural extension service or plant pathologist for proper diagnosis and treatment recommendations.''"

text \<open>
  The f-string reads the three fields left to right, so the first missing one raises.
\<close>

definition get_treatment_suggestion ::
  "('n json \<Rightarrow> string) \<Rightarrow> 'n knowledge_base \<Rightarrow> string \<Rightarrow> py_exception + string" where
  "get_treatment_suggestion py_str kb disease_name =
     bind (load_treatments_database kb) (\<lambda>treatments_db.
     bind (py_contains treatments_db disease_name) (\<lambda>present.
       if present then
         bind (py_getitem treatments_db disease_name) (\<lambda>disease_info.
         bind (py_getitem disease_info ''description'') (\<lambda>d.
         bind (py_getitem disease_info ''treatment'') (\<lambda>t.
         bind (py_getitem disease_info ''prevention'') (\<lambda>p.
           Inr (hit_message (format_field py_str d) (format_field py_str t)
                  (format_field py_str p))))))
       else Inr (miss_message disease_name)))"

section \<open>Arrays and images (NumPy, PIL)\<close>

text \<open>
  An array is its shape, its element type and its elements in row-major order. An element
  is the rational number the stored value denotes; rounding to the element type is not
  modelled (the cast of an 8-bit sample to a 32-bit float is exact).
\<close>

datatype dtype = NpBool | UInt8 | Int32 | Float32 | Float64

record ndarray =
  shape :: "nat list"
  dtype :: dtype
  elems :: "rat list"

text \<open>
  The colour modes of PIL with integer samples (the 32-bit float mode \<^verbatim>\<open>F\<close> is outside the
  model), their number of bands, the element type \<^verbatim>\<open>np.array\<close> gives them and the range of
  a sample.
\<close>

datatype mode =
    Mode_1 | Mode_L | Mode_LA | Mode_P | Mode_RGB | Mode_RGBA | Mode_CMYK | Mode_YCbCr
  | Mode_LAB | Mode_HSV | Mode_I

fun bands :: "mode \<Rightarrow> nat" where
  "bands Mode_1 = 1"
| "bands Mode_L = 1"
| "bands Mode_LA = 2"
| "bands Mode_P = 1"
| "bands Mode_RGB = 3"
| "bands Mode_RGBA = 4"
| "bands Mode_CMYK = 4"
| "bands Mode_YCbCr = 3"
| "bands Mode_LAB = 3"
| "bands Mode_HSV = 3"
| "bands Mode_I = 1"

fun mode_dtype :: "mode \<Rightarrow> dtype" where
  "mode_dtype Mode_1 = NpBool"
| "mode_dtype Mode_I = Int32"
| "mode_dtype _ = UInt8"



text \<open>
  A decoded image: its mode, its size (width, height) and its pixels in row-major order,
  each pixel one sample per band.
\<close>

record image =
  im_mode :: mode
  im_size :: "nat \<times> nat"
  im_pixels :: "int list list"



text \<open>\<^verbatim>\<open>np.array(image)\<close>: height first; a single-band image gives a 2-dimensional array.\<close>

definition np_array :: "image \<Rightarrow> ndarray" where
  "np_array img =
     \<lparr>shape =
        (if bands (im_mode img) = 1 then [snd (im_size img), fst (im_size img)]
         else [snd (im_size img), fst (im_size img), bands (im_mode img)]),
      dtype = mode_dtype (im_mode img),
      elems = map of_int (concat (im_pixels img))\<rparr>"

definition astype :: "ndarray \<Rightarrow> dtype \<Rightarrow> ndarray" where
  "astype a t = a\<lparr>dtype := t\<rparr>"

text \<open>
  \<^verbatim>\<open>a / c\<close> for a Python float \<open>c\<close>: a float array keeps its element type, any other
  array becomes 64-bit float.
\<close>

definition np_divide :: "ndarray \<Rightarrow> rat \<Rightarrow> ndarray" where
  "np_divide a c =
     \<lparr>shape = shape a,
      dtype = (if dtype a = Float32 \<or> dtype a = Float64 then dtype a else Float64),
      elems = map (\<lambda>x. x / c) (elems a)\<rparr>"

definition expand_dims_axis0 :: "ndarray \<Rightarrow> ndarray" where
  "expand_dims_axis0 a = a\<lparr>shape := 1 # shape a\<rparr>"

section \<open>Model utilities (model\_utils.py)\<close>

subsection \<open>preprocess\_image\<close>

text \<open>
  \<^verbatim>\<open>Image.resize\<close> is the parameter \<open>resize\<close>. The \<^verbatim>\<open>except\<close> clause logs and raises the
  exception again, so an exception of the body is the function's.
\<close>

definition preprocess_image ::
  "(image \<Rightarrow> nat \<times> nat \<Rightarrow> py_exception + image) \<Rightarrow> image \<Rightarrow> nat \<times> nat
     \<Rightarrow> py_exception + ndarray" where
  "preprocess_image resize img target_size =
     bind (resize img target_size) (\<lambda>resized.
       Inr (expand_dims_axis0 (np_divide (astype (np_array resized) Float32) 255)))"

definition default_target_size :: "nat \<times> nat" where
  "default_target_size = (224, 224)"

subsection \<open>create\_dummy\_model and load\_model\<close>

text \<open>
  A Keras model: the layers it was built from and its \<^verbatim>\<open>predict\<close>, which maps a batch to
  one row of outputs per item or raises.
\<close>

datatype layer = Input "nat list" | GlobalAveragePooling2D | Dense nat string

record keras_model =
  layers :: "layer list"
  predict :: "ndarray \<Rightarrow> py_exception + rat list list"

text \<open>The width of a model's output: the units of its last \<open>Dense\<close> layer.\<close>

fun output_units :: "layer list \<Rightarrow> nat option" where
  "output_units [] = None"
| "output_units (Dense n a # ls) =
     (case output_units ls of None \<Rightarrow> Some n | Some k \<Rightarrow> Some k)"
| "output_units (l # ls) = output_units ls"

text \<open>
  The network is built from literals and its weights are drawn at random: \<open>forward\<close> is
  the prediction function of the network so initialised. Building it is taken to succeed.
\<close>

definition create_dummy_model ::
  "(ndarray \<Rightarrow> py_exception + rat list list) \<Rightarrow> keras_model" where
  "create_dummy_model forward =
     \<lparr>layers = [Input [224, 224, 3], GlobalAveragePooling2D, Dense 85 ''softmax''],
      predict = forward\<rparr>"

text \<open>
  Everything outside the repository that the service calls: the knowledge-base files,
  Python's \<^verbatim>\<open>str\<close>, PIL, the file system and Keras.
\<close>

record 'n env =
  kb_files :: "'n knowledge_base"
  py_str :: "'n json \<Rightarrow> string"
  pil_open :: "string \<Rightarrow> py_exception + image"
  pil_convert :: "image \<Rightarrow> mode \<Rightarrow> py_exception + image"
  pil_resize :: "image \<Rightarrow> nat \<times> nat \<Rightarrow> py_exception + image"
  path_exists :: "string \<Rightarrow> bool"
  keras_load_model :: "string \<Rightarrow> py_exception + keras_model"
  dummy_forward :: "ndarray \<Rightarrow> py_exception + rat list list"
  backend_dir :: string

definition load_model_try :: "'n env \<Rightarrow> string \<Rightarrow> py_exception + keras_model" where
  "load_model_try e model_path =
     (if \<not> path_exists e model_path then Inr (create_dummy_model (dummy_forward e))
      else keras_load_model e model_path)"

definition load_model :: "'n env \<Rightarrow> string \<Rightarrow> py_exception + keras_model" where
  "load_model e model_path =
     (case load_model_try e model_path of
        Inr m \<Rightarrow> Inr m
      | Inl ex \<Rightarrow> Inr (create_dummy_model (dummy_forward e)))"

section \<open>The server (main.py)\<close>

text \<open>
  What \<^verbatim>\<open>predict_disease\<close> can raise: a builtin or library exception, or FastAPI's
  \<^verbatim>\<open>HTTPException\<close>, itself a subclass of \<^verbatim>\<open>Exception\<close>. The detail of the handler's
  exception, \<^verbatim>\<open>f"Prediction failed: {str(e)}"\<close>, is kept as the exception it formats.
\<close>

datatype raised = Builtin py_exception | HTTPException nat http_detail
  and http_detail = Detail string | Prediction_failed raised

fun builtin :: "py_exception + 'a \<Rightarrow> raised + 'a" where
  "builtin (Inl e) = Inl (Builtin e)"
| "builtin (Inr x) = Inr x"

record server_state =
  model :: "keras_model option"

definition initial_state :: server_state where
  "initial_state = \<lparr>model = None\<rparr>"

definition model_path :: "'n env \<Rightarrow> string" where
  "model_path e = backend_dir e @ ''/../models/model.h5''"

text \<open>The startup hook logs an exception of \<^verbatim>\<open>load_model\<close> and raises it again.\<close>

definition load_model_on_startup ::
  "'n env \<Rightarrow> server_state \<Rightarrow> py_exception + server_state" where
  "load_model_on_startup e st =
     bind (load_model e (model_path e)) (\<lambda>m. Inr (st\<lparr>model := Some m\<rparr>))"

record upload_file =
  content_type :: "string option"
  file_data :: string

record prediction =
  disease_name :: string
  confidence_score :: rat
  treatment_suggestion :: string

definition startswith :: "string \<Rightarrow> string \<Rightarrow> bool" where
  "startswith s p = (take (length p) s = p)"

text \<open>\<^verbatim>\<open>xs[i]\<close> for a non-negative index.\<close>

definition py_index :: "'a list \<Rightarrow> nat \<Rightarrow> py_exception + 'a" where
  "py_index xs i = (if i < length xs then Inr (xs ! i) else Inl IndexError)"

text \<open>
  \<^verbatim>\<open>np.argmax\<close>: a scan that keeps the first position of the largest value so far; an empty
  sequence raises.
\<close>

fun argmax_from :: "rat list \<Rightarrow> nat \<Rightarrow> rat \<Rightarrow> nat \<Rightarrow> nat" where
  "argmax_from [] i best best_i = best_i"
| "argmax_from (x # xs) i best best_i =
     (if best < x then argmax_from xs (Suc i) x i else argmax_from xs (Suc i) best best_i)"

definition np_argmax :: "rat list \<Rightarrow> py_exception + nat" where
  "np_argmax xs = (case xs of [] \<Rightarrow> Inl ValueError | x # rest \<Rightarrow> Inr (argmax_from rest 1 x 0))"

text \<open>
  \<^verbatim>\<open>round(x, ndigits)\<close>: to the nearest multiple of \<open>10 ^ -ndigits\<close>, a tie to the even one.
\<close>

definition round_half_even :: "rat \<Rightarrow> int" where
  "round_half_even x =
     (let f = \<lfloor>x\<rfloor>; d = x - of_int f
      in if d < 1 / 2 then f else if 1 / 2 < d then f + 1 else if even f then f else f + 1)"

definition py_round :: "rat \<Rightarrow> nat \<Rightarrow> rat" where
  "py_round x ndigits = of_int (round_half_even (x * 10 ^ ndigits)) / 10 ^ ndigits"

definition disease_names :: "string list" where
  "disease_names = [
     ''Wheat Rust'', ''Wheat Blast'', ''Wheat Scab'', ''Wheat Healthy'',
     ''Rice Blast'', ''Rice Brown Spot'', ''Rice Bacterial Blight'', ''Rice Healthy'',
     ''Corn Northern Leaf Blight'', ''Corn Common Rust'', ''Corn Gray Leaf Spot'',
     ''Corn Southern Rust'', ''Corn Healthy'',
     ''Barley Scald'', ''Barley Net Blotch'', ''Barley Healthy'',
     ''Tomato Bacterial Spot'', ''Tomato Early Blight'', ''Tomato Late Blight'',
     ''Tomato Leaf Mold'', ''Tomato Septoria Leaf Spot'', ''Tomato Spider Mites'',
     ''Tomato Target Spot'', ''Tomato Yellow Leaf Curl Virus'', ''Tomato Mosaic Virus'',
     ''Tomato Healthy'',
     ''Potato Early Blight'', ''Potato Late Blight'', ''Potato Scab'', ''Potato Blackleg'',
     ''Potato Healthy'',
     ''Pepper Bacterial Spot'', ''Pepper Anthracnose'', ''Pepper Healthy'',
     ''Cucumber Downy Mildew'', ''Cucumber Powdery Mildew'', ''Cucumber Anthracnose'',
     ''Cucumber Healthy'',
     ''Lettuce Downy Mildew'', ''Lettuce Bacterial Soft Rot'', ''Lettuce Healthy'',
     ''Carrot Leaf Blight'', ''Carrot Root Rot'', ''Carrot Healthy'',
     ''Apple Scab'', ''Apple Fire Blight'', ''Apple Powdery Mildew'', ''Apple Healthy'',
     ''Citrus Canker'', ''Citrus Greening'', ''Citrus Melanose'', ''Citrus Healthy'',
     ''Grape Downy Mildew'', ''Grape Powdery Mildew'', ''Grape Black Rot'', ''Grape Healthy'',
     ''Strawberry Powdery Mildew'', ''Strawberry Gray Mold'', ''Strawberry Anthracnose'',
     ''Strawberry Healthy'',
     ''Soybean Rust'', ''Soybean Bacterial Blight'', ''Soybean Healthy'',
     ''Bean Anthracnose'', ''Bean Rust'', ''Bean Healthy'',
     ''Sweet Potato Scab'', ''Sweet Potato Healthy'',
     ''Cassava Mosaic Disease'', ''Cassava Brown Streak Disease'', ''Cassava Healthy'']"

subsection \<open>predict\_disease\<close>

text \<open>
  The \<^verbatim>\<open>try\<close> block in two parts. The first runs from the content-type check to
  \<^verbatim>\<open>model.predict\<close> (lines 78 to 99): \<^verbatim>\<open>content_type\<close> may be \<^verbatim>\<open>None\<close>, which has no
  \<^verbatim>\<open>startswith\<close>.
\<close>

definition classifier_output ::
  "'n env \<Rightarrow> server_state \<Rightarrow> upload_file \<Rightarrow> raised + rat list list" where
  "classifier_output e st file =
     bind (case content_type file of
             None \<Rightarrow> Inl (Builtin AttributeError)
           | Some ct \<Rightarrow> Inr (startswith ct ''image/'')) (\<lambda>is_image.
     if \<not> is_image then Inl (HTTPException 400 (Detail ''File must be an image''))
     else
       bind (builtin (pil_open e (file_data file))) (\<lambda>opened.
       bind (if im_mode opened \<noteq> Mode_RGB then builtin (pil_convert e opened Mode_RGB)
             else Inr opened) (\<lambda>img.
       bind (builtin (preprocess_image (pil_resize e) img default_target_size))
         (\<lambda>processed_image.
       case model st of
         None \<Rightarrow> Inl (HTTPException 500 (Detail ''Model not loaded''))
       | Some m \<Rightarrow> builtin (predict m processed_image)))))"

text \<open>Line 147: the label of a class index, with the sentinel for an index past the list.\<close>

definition class_label :: "nat \<Rightarrow> string" where
  "class_label class_index =
     (if class_index < length disease_names then disease_names ! class_index
      else ''Unknown Disease'')"

text \<open>
  The second part runs from \<^verbatim>\<open>np.argmax\<close> to the response (lines 101 to 161). The
  response is the dict handed to \<^verbatim>\<open>JSONResponse\<close>; logging is left out.
\<close>

definition prediction_response :: "'n env \<Rightarrow> rat list list \<Rightarrow> raised + prediction" where
  "prediction_response e predictions =
     bind (builtin (py_index predictions 0)) (\<lambda>row.
     bind (builtin (np_argmax row)) (\<lambda>class_index.
     bind (builtin (py_index row class_index)) (\<lambda>confidence.
     bind (builtin (get_treatment_suggestion (py_str e) (kb_files e)
                      (class_label class_index))) (\<lambda>treatment.
       Inr \<lparr>disease_name = class_label class_index,
            confidence_score = py_round (confidence * 100) 2,
            treatment_suggestion = treatment\<rparr>))))"

definition predict_try :: "'n env \<Rightarrow> server_state \<Rightarrow> upload_file \<Rightarrow> raised + prediction" where
  "predict_try e st file =
     bind (classifier_output e st file) (\<lambda>predictions. prediction_response e predictions)"

text \<open>
  The \<^verbatim>\<open>except Exception\<close> clause around the block answers every exception of it, the
  block's own \<^verbatim>\<open>HTTPException\<close>s included, with status 500.
\<close>

definition predict_disease ::
  "'n env \<Rightarrow> server_state \<Rightarrow> upload_file \<Rightarrow> raised + prediction" where
  "predict_disease e st file =
     (case predict_try e st file of
        Inr response \<Rightarrow> Inr response
      | Inl ex \<Rightarrow> Inl (HTTPException 500 (Prediction_failed ex)))"

section \<open>Example inputs\<close>

text \<open>Knowledge bases: a flat catalog with one complete record, the same catalog under one
  category and one crop, and a catalog whose record lacks its \<^verbatim>\<open>prevention\<close> field.\<close>

definition example_flat_catalog :: "int json" where
  "example_flat_catalog = JObj [(''Rice Blast'', disease_record ''d'' ''t'' ''p'')]"

definition example_hierarchy :: "int json" where
  "example_hierarchy =
     JObj [(''CEREALS'', JObj [(''Rice'',
       JObj [(''Rice Blast'', disease_record ''d'' ''t'' ''p'')])])]"

definition example_partial_catalog :: "int json" where
  "example_partial_catalog =
     JObj [(''Rice Blast'', JObj [(''description'', JStr ''d''), (''treatment'', JStr ''t'')])]"

definition example_py_str :: "int json \<Rightarrow> string" where
  "example_py_str v = ''?''"

definition no_knowledge_base :: "int knowledge_base" where
  "no_knowledge_base = \<lparr>comprehensive_path = Missing, knowledge_base_path = Missing\<rparr>"

text \<open>Images of one pixel: a grey one and a red one.\<close>

definition example_gray_image :: image where
  "example_gray_image = \<lparr>im_mode = Mode_L, im_size = (1, 1), im_pixels = [[7]]\<rparr>"


text \<open>
  A resize by nearest-neighbour sampling, and a conversion that repeats the first band
  (what PIL does from \<^verbatim>\<open>L\<close> to \<^verbatim>\<open>RGB\<close>).
\<close>

definition resize_nearest :: "image \<Rightarrow> nat \<times> nat \<Rightarrow> py_exception + image" where
  "resize_nearest img target_size =
     (let w = fst target_size; h = snd target_size;
          w0 = fst (im_size img); h0 = snd (im_size img)
      in if w = 0 \<or> h = 0 then Inl ValueError
         else Inr \<lparr>im_mode = im_mode img, im_size = (w, h),
                   im_pixels =
                     map (\<lambda>i. im_pixels img ! (((i div w) * h0 div h) * w0 + (i mod w) * w0 div w))
                       [0..<w * h]\<rparr>)"

definition convert_first_band :: "image \<Rightarrow> mode \<Rightarrow> py_exception + image" where
  "convert_first_band img m =
     Inr \<lparr>im_mode = m, im_size = im_size img,
          im_pixels = map (\<lambda>px. replicate (bands m) (hd px)) (im_pixels img)\<rparr>"

text \<open>A classifier output with 1 at position \<open>i\<close> and 0 elsewhere.\<close>

definition one_hot :: "nat \<Rightarrow> nat \<Rightarrow> rat list" where
  "one_hot n i = replicate i 0 @ 1 # replicate (n - Suc i) 0"

text \<open>
  A deployment with no knowledge-base file and no model file, whose dummy network puts
  all weight on class 71; and a state holding a three-class model that puts all weight on
  class 0.
\<close>

definition example_env :: "int env" where
  "example_env =
     \<lparr>kb_files = no_knowledge_base,
      py_str = example_py_str,
      pil_open = (\<lambda>data. Inr example_gray_image),
      pil_convert = convert_first_band,
      pil_resize = resize_nearest,
      path_exists = (\<lambda>path. False),
      keras_load_model = (\<lambda>path. Inl OSError),
      dummy_forward = (\<lambda>batch. Inr [one_hot 85 71]),
      backend_dir = ''/app/backend''\<rparr>"

definition example_dummy_state :: server_state where
  "example_dummy_state = \<lparr>model = Some (create_dummy_model (dummy_forward example_env))\<rparr>"



definition example_text_upload :: upload_file where
  "example_text_upload = \<lparr>content_type = Some ''text/plain'', file_data = ''hello''\<rparr>"

section \<open>Properties of the treatment catalog\<close>

lemma load_treatments_database_total:
  "\<exists>db. load_treatments_database kb = Inr db"
  by (simp add: load_treatments_database_def split: sum.split)

lemma load_no_knowledge_base:
  "load_treatments_database no_knowledge_base = Inr get_default_treatments"
  by (simp add: load_treatments_database_def load_treatments_try_def no_knowledge_base_def)

lemma load_partial:
  "load_treatments_database
     \<lparr>comprehensive_path = Missing, knowledge_base_path = Parsed example_partial_catalog\<rparr>
   = Inr example_partial_catalog"
  by (simp add: load_treatments_database_def load_treatments_try_def)

text \<open>The default table names 17 diseases, each once, \<^verbatim>\<open>Tomato Healthy\<close> among them.\<close>

theorem default_table_names:
  "\<exists>kvs. (get_default_treatments :: 'n json) = JObj kvs \<and> length kvs = 17
     \<and> distinct (map fst kvs) \<and> map_of kvs ''Tomato Healthy'' \<noteq> None"
  by (simp add: get_default_treatments_def)

subsection \<open>The fallback chain of the loader\<close>

text \<open>
  C1, as stated, fails: when the hierarchical file exists and cannot be read or parsed, the
  single handler returns the default table at once. A flat file that parses is not
  attempted.
\<close>

theorem load_counterexample:
  "load_treatments_database
     \<lparr>comprehensive_path = Unreadable JSONDecodeError,
      knowledge_base_path = Parsed example_flat_catalog\<rparr> = Inr get_default_treatments
   \<and> load_treatments_database
     \<lparr>comprehensive_path = Unreadable JSONDecodeError,
      knowledge_base_path = Parsed example_flat_catalog\<rparr> \<noteq> Inr example_flat_catalog"
  by (simp add: load_treatments_database_def load_treatments_try_def
      example_flat_catalog_def get_default_treatments_def)

lemma flatten_example_hierarchy:
  "flatten_disease_database example_hierarchy = Inr example_flat_catalog"
  by (simp add: example_hierarchy_def example_flat_catalog_def flatten_disease_database_def)

lemma flatten_example_flat:
  "flatten_disease_database example_flat_catalog = Inl AttributeError"
  by (simp add: example_flat_catalog_def flatten_disease_database_def disease_record_def)

text \<open>
  C1, amended: a failure while reading the hierarchical file yields the embedded default
  table directly, and so does a failure while flattening it; a hierarchical file that
  parses and flattens is the catalog; the flat file is attempted exactly when the
  hierarchical file is absent, and is the catalog when it parses; when it is absent or
  fails, the default table is used; the loader never fails.
\<close>

theorem load_fallback_chain:
  "(comprehensive_path kb = Unreadable ex \<longrightarrow>
      load_treatments_database kb = Inr get_default_treatments)
   \<and> (comprehensive_path kb = Parsed comprehensive_data
        \<and> flatten_disease_database comprehensive_data = Inr flattened \<longrightarrow>
      load_treatments_database kb = Inr flattened)
   \<and> (comprehensive_path kb = Parsed comprehensive_data
        \<and> flatten_disease_database comprehensive_data = Inl ex'' \<longrightarrow>
      load_treatments_database kb = Inr get_default_treatments)
   \<and> (comprehensive_path kb = Missing \<and> knowledge_base_path kb = Parsed data \<longrightarrow>
      load_treatments_database kb = Inr data)
   \<and> (comprehensive_path kb = Missing \<and> knowledge_base_path kb = Unreadable ex' \<longrightarrow>
      load_treatments_database kb = Inr get_default_treatments)
   \<and> (comprehensive_path kb = Missing \<and> knowledge_base_path kb = Missing \<longrightarrow>
      load_treatments_database kb = Inr get_default_treatments)
   \<and> (\<exists>db. load_treatments_database kb = Inr db)"
  by (simp add: load_treatments_database_def load_treatments_try_def split: sum.split)

text \<open>The six cases of C1 at concrete knowledge-base files.\<close>

theorem load_fallback_chain_witness:
  "load_treatments_database
     \<lparr>comprehensive_path = Unreadable OSError, knowledge_base_path = Parsed example_flat_catalog\<rparr>
     = Inr get_default_treatments
   \<and> load_treatments_database
     \<lparr>comprehensive_path = Parsed example_hierarchy, knowledge_base_path = Missing\<rparr>
     = Inr example_flat_catalog
   \<and> load_treatments_database
     \<lparr>comprehensive_path = Parsed example_flat_catalog, knowledge_base_path = Missing\<rparr>
     = Inr get_default_treatments
   \<and> load_treatments_database
     \<lparr>comprehensive_path = Missing, knowledge_base_path = Parsed example_flat_catalog\<rparr>
     = Inr example_flat_catalog
   \<and> load_treatments_database
     \<lparr>comprehensive_path = Missing, knowledge_base_path = Unreadable JSONDecodeError\<rparr>
     = Inr (get_default_treatments :: int json)
   \<and> load_treatments_database
     \<lparr>comprehensive_path = Missing, knowledge_base_path = Missing\<rparr>
     = Inr (get_default_treatments :: int json)"
  using
    load_fallback_chain [where kb = "\<lparr>comprehensive_path = Unreadable OSError,
      knowledge_base_path = Parsed example_flat_catalog\<rparr>" and ex = OSError]
    load_fallback_chain [where kb = "\<lparr>comprehensive_path = Parsed example_hierarchy,
      knowledge_base_path = Missing\<rparr>" and comprehensive_data = example_hierarchy
      and flattened = example_flat_catalog]
    load_fallback_chain [where kb = "\<lparr>comprehensive_path = Parsed example_flat_catalog,
      knowledge_base_path = Missing\<rparr>" and comprehensive_data = example_flat_catalog
      and ex'' = AttributeError]
    load_fallback_chain [where kb = "\<lparr>comprehensive_path = Missing,
      knowledge_base_path = Parsed example_flat_catalog\<rparr>" and data = example_flat_catalog]
    load_fallback_chain [where kb = "\<lparr>comprehensive_path = Missing,
      knowledge_base_path = Unreadable JSONDecodeError\<rparr> :: int knowledge_base"
      and ex' = JSONDecodeError]
    load_fallback_chain [where kb = "\<lparr>comprehensive_path = Missing,
      knowledge_base_path = Missing\<rparr> :: int knowledge_base"]
    flatten_example_hierarchy flatten_example_flat
  by simp

subsection \<open>Lookup\<close>

text \<open>
  C3, as stated, fails: a record without its \<^verbatim>\<open>prevention\<close> field makes the lookup raise
  \<^verbatim>\<open>KeyError\<close>; it does not fall through to the miss message.
\<close>

theorem lookup_counterexample:
  "get_treatment_suggestion example_py_str
     \<lparr>comprehensive_path = Missing, knowledge_base_path = Parsed example_partial_catalog\<rparr>
     ''Rice Blast'' = Inl (KeyError ''prevention'')"
  by (simp add: get_treatment_suggestion_def load_treatments_database_def
      load_treatments_try_def example_partial_catalog_def)

text \<open>
  C3, amended: when the loaded catalog is a mapping, the lookup of a name absent from it
  returns the miss message, the lookup of a name whose record has all three fields returns
  a string, and the lookup of a name whose record lacks one of the three fields raises
  \<^verbatim>\<open>KeyError\<close>.
\<close>

theorem lookup_total_when_complete:
  assumes "load_treatments_database kb = Inr (JObj db)"
  shows "(map_of db name = None \<longrightarrow>
            get_treatment_suggestion str_of kb name = Inr (miss_message name))
       \<and> (map_of db name = Some (JObj info)
            \<and> map_of info ''description'' \<noteq> None \<and> map_of info ''treatment'' \<noteq> None
            \<and> map_of info ''prevention'' \<noteq> None \<longrightarrow>
            (\<exists>s. get_treatment_suggestion str_of kb name = Inr s))
       \<and> (map_of db name = Some (JObj info)
            \<and> (map_of info ''description'' = None \<or> map_of info ''treatment'' = None
               \<or> map_of info ''prevention'' = None) \<longrightarrow>
            (\<exists>k. get_treatment_suggestion str_of kb name = Inl (KeyError k)))"
  using assms
  by (auto simp: get_treatment_suggestion_def split: option.splits)

text \<open>
  The three cases of C3: a name absent from the default table, a name in it, and the
  record without a field.
\<close>

theorem lookup_total_when_complete_witness:
  "get_treatment_suggestion example_py_str no_knowledge_base ''Wheat Rust''
     = Inr (miss_message ''Wheat Rust'')
   \<and> (\<exists>s. get_treatment_suggestion example_py_str no_knowledge_base ''Tomato Healthy'' = Inr s)
   \<and> (\<exists>k. get_treatment_suggestion example_py_str
        \<lparr>comprehensive_path = Missing, knowledge_base_path = Parsed example_partial_catalog\<rparr>
        ''Rice Blast'' = Inl (KeyError k))"
proof -
  let ?info = "[(''description'', JStr ''The tomato plant appears healthy with no visible disease symptoms''),
       (''treatment'', JStr ''Continue current care practices, monitor regularly for any changes''),
       (''prevention'', JStr ''Maintain proper watering, fertilization, and pest management'')]
       :: (string \<times> int json) list"
  obtain db where db: "(get_default_treatments :: int json) = JObj db"
    and miss: "map_of db ''Wheat Rust'' = None"
    and hit: "map_of db ''Tomato Healthy'' = Some (JObj ?info)"
    by (simp add: get_default_treatments_def disease_record_def)
  have l: "load_treatments_database no_knowledge_base = Inr (JObj db)"
    using load_no_knowledge_base db by simp
  have a: "get_treatment_suggestion example_py_str no_knowledge_base ''Wheat Rust''
     = Inr (miss_message ''Wheat Rust'')"
    using lookup_total_when_complete [OF l, where name = "''Wheat Rust''"] miss by simp
  have b: "\<exists>s. get_treatment_suggestion example_py_str no_knowledge_base ''Tomato Healthy'' = Inr s"
    using lookup_total_when_complete [OF l, where name = "''Tomato Healthy''"
        and info = ?info and str_of = example_py_str] hit
    by simp
  have l2: "load_treatments_database
     \<lparr>comprehensive_path = Missing, knowledge_base_path = Parsed example_partial_catalog\<rparr>
     = Inr (JObj [(''Rice Blast'', JObj [(''description'', JStr ''d''), (''treatment'', JStr ''t'')])])"
    using load_partial by (simp add: example_partial_catalog_def)
  have c: "\<exists>k. get_treatment_suggestion example_py_str
        \<lparr>comprehensive_path = Missing, knowledge_base_path = Parsed example_partial_catalog\<rparr>
        ''Rice Blast'' = Inl (KeyError k)"
    using lookup_total_when_complete [OF l2, where name = "''Rice Blast''"
        and info = "[(''description'', JStr ''d''), (''treatment'', JStr ''t'')]"
        and str_of = example_py_str]
    by simp
  from a b c show ?thesis by simp
qed

lemma sublist_treatment: "sublist ''Treatment:'' (hit_message d t p)"
proof -
  have "hit_message d t p
      = (d @ newline @ newline) @ ''Treatment:''
        @ ('' '' @ t @ newline @ newline @ ''Prevention: '' @ p)"
    by (simp add: hit_message_def)
  then show ?thesis by (simp only: sublist_appendI)
qed

lemma sublist_prevention: "sublist ''Prevention:'' (hit_message d t p)"
proof -
  have "hit_message d t p
      = (d @ newline @ newline @ ''Treatment: '' @ t @ newline @ newline) @ ''Prevention:''
        @ ('' '' @ p)"
    by (simp add: hit_message_def)
  then show ?thesis by (simp only: sublist_appendI)
qed

text \<open>
  C8: for a name present in the catalog whose record has the three fields, the lookup
  returns the description, two newlines, \<^verbatim>\<open>Treatment: \<close> and the treatment, two newlines,
  \<^verbatim>\<open>Prevention: \<close> and the prevention; the result contains \<^verbatim>\<open>Treatment:\<close> and
  \<^verbatim>\<open>Prevention:\<close>.
\<close>

theorem lookup_hit_message:
  assumes "load_treatments_database kb = Inr (JObj db)"
    and "map_of db name = Some (JObj info)"
    and "map_of info ''description'' = Some d"
    and "map_of info ''treatment'' = Some t"
    and "map_of info ''prevention'' = Some p"
  shows "get_treatment_suggestion str_of kb name
           = Inr (format_field str_of d @ newline @ newline
                  @ ''Treatment: '' @ format_field str_of t @ newline @ newline
                  @ ''Prevention: '' @ format_field str_of p)
         \<and> (\<exists>s. get_treatment_suggestion str_of kb name = Inr s
                \<and> sublist ''Treatment:'' s \<and> sublist ''Prevention:'' s)"
proof -
  have eq: "get_treatment_suggestion str_of kb name
      = Inr (hit_message (format_field str_of d) (format_field str_of t) (format_field str_of p))"
    using assms by (simp add: get_treatment_suggestion_def)
  show ?thesis
    using eq sublist_treatment sublist_prevention
    by (simp add: hit_message_def)
qed

text \<open>C8 at \<^verbatim>\<open>Tomato Healthy\<close> in the default table.\<close>

theorem lookup_hit_message_witness:
  "load_treatments_database no_knowledge_base = Inr get_default_treatments
   \<and> get_treatment_suggestion example_py_str no_knowledge_base ''Tomato Healthy''
       = Inr (''The tomato plant appears healthy with no visible disease symptoms''
              @ newline @ newline
              @ ''Treatment: '' @ ''Continue current care practices, monitor regularly for any changes''
              @ newline @ newline
              @ ''Prevention: '' @ ''Maintain proper watering, fertilization, and pest management'')"
proof -
  obtain db where db: "(get_default_treatments :: int json) = JObj db"
    and rec: "map_of db ''Tomato Healthy'' = Some (JObj
      [(''description'', JStr ''The tomato plant appears healthy with no visible disease symptoms''),
       (''treatment'', JStr ''Continue current care practices, monitor regularly for any changes''),
       (''prevention'', JStr ''Maintain proper watering, fertilization, and pest management'')])"
    by (simp add: get_default_treatments_def disease_record_def)
  from lookup_hit_message [of no_knowledge_base db "''Tomato Healthy''" _
      "JStr ''The tomato plant appears healthy with no visible disease symptoms''"
      "JStr ''Continue current care practices, monitor regularly for any changes''"
      "JStr ''Maintain proper watering, fertilization, and pest management''" example_py_str]
    load_no_knowledge_base db rec
  show ?thesis by simp
qed

subsection \<open>Flattening\<close>

lemma update_fresh:
  "k \<notin> fst ` set al \<Longrightarrow> AList.update k v al = al @ [(k, v)]"
  by (induction al) auto

lemma flatten_diseases_distinct:
  "distinct (map fst (flattened @ ds)) \<Longrightarrow> flatten_diseases ds flattened = flattened @ ds"
proof (induction ds arbitrary: flattened)
  case Nil
  then show ?case by simp
next
  case (Cons a ds)
  obtain k v where a: "a = (k, v)" by (cases a)
  from Cons.prems a have fresh: "k \<notin> fst ` set flattened" by auto
  from Cons.prems a have "distinct (map fst ((flattened @ [(k, v)]) @ ds))" by auto
  from Cons.IH [OF this] fresh a show ?case by (simp add: update_fresh)
qed

text \<open>
  C9, as stated, fails: the flattening transform applied to a flat catalog, here the
  default table, raises \<^verbatim>\<open>AttributeError\<close> at the first field of the first record, a
  string without \<^verbatim>\<open>items\<close>; it does not return the catalog.
\<close>

theorem flatten_flat_counterexample:
  "flatten_disease_database (get_default_treatments :: int json) = Inl AttributeError
   \<and> flatten_disease_database (get_default_treatments :: int json) \<noteq> Inr get_default_treatments"
  by (simp add: flatten_disease_database_def get_default_treatments_def disease_record_def)

text \<open>
  C9, amended: flattening the hierarchy that holds a flat catalog under one category and
  one crop yields that catalog.
\<close>

theorem flatten_single_level:
  "distinct (map fst flat) \<Longrightarrow>
   flatten_disease_database (JObj [(category, JObj [(crop, JObj flat)])]) = Inr (JObj flat)"
  using flatten_diseases_distinct [of "[]" flat]
  by (simp add: flatten_disease_database_def)

text \<open>C9 at a catalog of one record under \<^verbatim>\<open>CEREALS\<close> and \<^verbatim>\<open>Rice\<close>.\<close>

theorem flatten_single_level_witness:
  "distinct (map fst [(''Rice Blast'', disease_record ''d'' ''t'' ''p'' :: int json)]) \<and>
   flatten_disease_database
     (JObj [(''CEREALS'', JObj [(''Rice'',
        JObj [(''Rice Blast'', disease_record ''d'' ''t'' ''p'' :: int json)])])])
     = Inr (JObj [(''Rice Blast'', disease_record ''d'' ''t'' ''p'')])"
  using flatten_single_level
    [of "[(''Rice Blast'', disease_record ''d'' ''t'' ''p'' :: int json)]" "''CEREALS''" "''Rice''"]
  by simp

section \<open>Properties of the image preprocessor\<close>


lemma preprocess_image_raises:
  "resize img target_size = Inl ex \<Longrightarrow> preprocess_image resize img target_size = Inl ex"
  by (simp add: preprocess_image_def)











section \<open>Properties of the server\<close>

subsection \<open>The label mapping and the confidence\<close>













subsection \<open>Errors and the model handle\<close>

lemma bind_Inl: "bind m f = Inl r \<Longrightarrow> m = Inl r \<or> (\<exists>x. m = Inr x \<and> f x = Inl r)"
  by (cases m) simp_all

lemma builtin_Inl: "builtin x = Inl r \<Longrightarrow> \<exists>ex. r = Builtin ex"
  by (cases x) auto

lemma classifier_output_loaded:
  assumes "model st = Some m"
  shows "classifier_output e st upload \<noteq> Inl (HTTPException 500 (Detail ''Model not loaded''))"
proof
  assume a: "classifier_output e st upload = Inl (HTTPException 500 (Detail ''Model not loaded''))"
  show False
    using a assms unfolding classifier_output_def
    by (auto dest!: bind_Inl builtin_Inl split: option.splits if_splits)
qed

lemma prediction_response_builtin:
  "prediction_response e predictions = Inl r \<Longrightarrow> \<exists>ex. r = Builtin ex"
  unfolding prediction_response_def
  by (auto dest!: bind_Inl builtin_Inl)

lemma predict_try_loaded:
  assumes "model st = Some m"
  shows "predict_try e st upload \<noteq> Inl (HTTPException 500 (Detail ''Model not loaded''))"
proof
  assume a: "predict_try e st upload = Inl (HTTPException 500 (Detail ''Model not loaded''))"
  from bind_Inl [OF a [unfolded predict_try_def]]
  show False
    using classifier_output_loaded [OF assms] prediction_response_builtin by fastforce
qed

lemma predict_disease_loaded:
  assumes "model st = Some m"
  shows "predict_disease e st upload
     \<noteq> Inl (HTTPException 500 (Prediction_failed (HTTPException 500 (Detail ''Model not loaded''))))"
  using predict_try_loaded [OF assms, where e = e and upload = upload]
  by (auto simp: predict_disease_def split: sum.splits)

lemma predict_disease_not_loaded:
  assumes "content_type upload = Some ct" "startswith ct ''image/''"
    "pil_open e (file_data upload) = Inr opened" "im_mode opened = Mode_RGB"
    "preprocess_image (pil_resize e) opened default_target_size = Inr t"
  shows "predict_disease e initial_state upload
     = Inl (HTTPException 500 (Prediction_failed (HTTPException 500 (Detail ''Model not loaded''))))"
  using assms
  by (simp add: predict_disease_def predict_try_def classifier_output_def initial_state_def)

text \<open>
  C10: \<^verbatim>\<open>load_model\<close> returns a model for every path and falls back to the dummy model
  when the file is missing or loading raises; the startup hook then completes with a
  model in the state, and no upload makes \<^verbatim>\<open>predict_disease\<close> answer from its
  \<^verbatim>\<open>Model not loaded\<close> branch.
\<close>

theorem load_model_total:
  "(\<exists>m. load_model e path = Inr m)
   \<and> (\<not> path_exists e path \<or> (\<exists>ex. keras_load_model e path = Inl ex)
        \<longrightarrow> load_model e path = Inr (create_dummy_model (dummy_forward e)))
   \<and> (\<exists>st'. load_model_on_startup e st = Inr st' \<and> model st' \<noteq> None
        \<and> (\<forall>upload. predict_disease e st' upload
              \<noteq> Inl (HTTPException 500
                    (Prediction_failed (HTTPException 500 (Detail ''Model not loaded''))))))"
proof -
  have total: "\<exists>m. load_model e p = Inr m" for p
    by (simp add: load_model_def split: sum.split)
  have fallback: "\<not> path_exists e path \<or> (\<exists>ex. keras_load_model e path = Inl ex)
        \<longrightarrow> load_model e path = Inr (create_dummy_model (dummy_forward e))"
    by (auto simp: load_model_def load_model_try_def)
  obtain m where m: "load_model e (model_path e) = Inr m" using total by blast
  have start: "load_model_on_startup e st = Inr (st\<lparr>model := Some m\<rparr>)"
    using m by (simp add: load_model_on_startup_def)
  have "\<forall>upload. predict_disease e (st\<lparr>model := Some m\<rparr>) upload
      \<noteq> Inl (HTTPException 500 (Prediction_failed (HTTPException 500 (Detail ''Model not loaded''))))"
    using predict_disease_loaded [where st = "st\<lparr>model := Some m\<rparr>" and m = m and e = e]
    by simp
  with start total fallback show ?thesis by auto
qed

text \<open>
  C10 at a deployment without a model file: the startup hook stores the dummy model.
\<close>

theorem load_model_total_witness:
  "\<not> path_exists example_env (model_path example_env)
   \<and> load_model example_env (model_path example_env)
       = Inr (create_dummy_model (dummy_forward example_env))
   \<and> load_model_on_startup example_env initial_state = Inr example_dummy_state"
proof -
  have a: "\<not> path_exists example_env (model_path example_env)"
    by (simp add: example_env_def)
  have b: "load_model example_env (model_path example_env)
       = Inr (create_dummy_model (dummy_forward example_env))"
    using load_model_total [of example_env "model_path example_env"] a by blast
  show ?thesis using a b
    by (simp add: load_model_on_startup_def initial_state_def example_dummy_state_def)
qed

lemma non_image_rejected_with_500:
  assumes "content_type upload = Some ct" and "\<not> startswith ct ''image/''"
  shows "predict_disease e st upload
     = Inl (HTTPException 500
         (Prediction_failed (HTTPException 400 (Detail ''File must be an image''))))"
  using assms
  by (simp add: predict_disease_def predict_try_def classifier_output_def)

lemma missing_content_type_500:
  assumes "content_type upload = None"
  shows "predict_disease e st upload
     = Inl (HTTPException 500 (Prediction_failed (Builtin AttributeError)))"
  using assms
  by (simp add: predict_disease_def predict_try_def classifier_output_def)

text \<open>
  C2: an upload declared \<^verbatim>\<open>text/plain\<close> raises the \<^verbatim>\<open>HTTPException\<close> of status 400 inside
  the \<^verbatim>\<open>try\<close> block, and the handler answers it with status 500, whatever the libraries
  and the state are. The code misses the status the claim states.
\<close>

theorem non_image_upload_status_500:
  "predict_disease e st example_text_upload
     = Inl (HTTPException 500
         (Prediction_failed (HTTPException 400 (Detail ''File must be an image''))))"
  by (simp add: predict_disease_def predict_try_def classifier_output_def
      example_text_upload_def startswith_def)

text \<open>
  C5: the label list has 71 names and the dummy model 85 outputs, so the invariant of the
  claim does not hold of the code: class indices 71 to 84 have no label.
\<close>

theorem label_list_shorter_than_dummy_output:
  "length disease_names = 71
   \<and> output_units (layers (create_dummy_model forward)) = Some 85
   \<and> class_label 71 = ''Unknown Disease''"
  by (simp add: disease_names_def create_dummy_model_def class_label_def)

subsection \<open>The pipeline at the example deployment\<close>








end
